theory Spec2Isabelle
  imports Complex_Main
begin

section \<open>Strings of the Python programs\<close>

text \<open>
  A Python \<open>str\<close> is modelled as a \<open>string\<close>, one \<open>char\<close> per code point; the model
  covers the code points below 256. \<open>len\<close> is \<open>length\<close>, \<open>+\<close> and f-string
  interpolation are \<open>@\<close>, \<open>v[:1000]\<close> is \<open>take 1000 v\<close>.

  \<open>str.isspace\<close> on that range holds of TAB, LF, VT, FF, CR, the separators
  0x1C to 0x1F, the blank, NEL (0x85) and the no-break space (0xA0).
  \<open>str.strip()\<close> removes the leading and the trailing run of such characters.
  \<open>str.lower()\<close> maps A to Z and the capital letters 0xC0 to 0xDE (0xD7, the
  multiplication sign, apart) to the letter 32 code points further.
\<close>

definition isspace :: "char \<Rightarrow> bool" where
  "isspace c = (let n = (of_char c :: nat) in
     (9 \<le> n \<and> n \<le> 13) \<or> (28 \<le> n \<and> n \<le> 32) \<or> n = 133 \<or> n = 160)"

definition strip :: "string \<Rightarrow> string" where
  "strip s = rev (dropWhile isspace (rev (dropWhile isspace s)))"

definition lower_char :: "char \<Rightarrow> char" where
  "lower_char c = (let n = (of_char c :: nat) in
     if (65 \<le> n \<and> n \<le> 90) \<or> (192 \<le> n \<and> n \<le> 222 \<and> n \<noteq> 215)
     then char_of (n + 32) else c)"

definition lower :: "string \<Rightarrow> string" where
  "lower s = map lower_char s"

section \<open>Values, exceptions and the world outside the process\<close>

text \<open>
  What \<open>json.load\<close> returns: \<open>None\<close>, a bool, an int, a float, a str, a list or
  a dict with string keys. A dict is the finite map \<open>map_of\<close> of its item list.
\<close>

datatype json_value =
    JNull
  | JBool bool
  | JInt int
  | JFloat real
  | JString string
  | JList "json_value list"
  | JDict "(string \<times> json_value) list"

text \<open>Python truthiness, as \<open>if key and ...\<close> tests it.\<close>

fun truthy :: "json_value \<Rightarrow> bool" where
  "truthy JNull = False"
| "truthy (JBool b) = b"
| "truthy (JInt i) = (i \<noteq> 0)"
| "truthy (JFloat x) = (x \<noteq> 0)"
| "truthy (JString s) = (s \<noteq> [])"
| "truthy (JList xs) = (xs \<noteq> [])"
| "truthy (JDict kvs) = (kvs \<noteq> [])"

datatype py_exn =
    AttributeError
  | IndexError
  | OSError
  | ValueError
  | EOFError
  | KeyboardInterrupt

text \<open>
  The state of a path on disk, as \<open>get_key_from_json\<close> meets it: \<open>os.path.isfile\<close>
  is false; \<open>open\<close> raises; reading or \<open>json.load\<close> raises (bad encoding, malformed
  JSON); or \<open>json.load\<close> returns a value.
\<close>

datatype file_state =
    NotAFile
  | OpenFails
  | LoadFails
  | Loaded json_value

text \<open>
  \<open>os.environ\<close> and the file system are finite tables; a name that is not in
  \<open>os.environ\<close> is unset, a path that is not in the file system is no file.
\<close>

type_synonym environ = "(string \<times> string) list"
type_synonym files = "(string \<times> file_state) list"

definition getenv :: "environ \<Rightarrow> string \<Rightarrow> string option" where
  "getenv env name = map_of env name"

definition file_at :: "files \<Rightarrow> string \<Rightarrow> file_state" where
  "file_at fs path = (case map_of fs path of None \<Rightarrow> NotAFile | Some f \<Rightarrow> f)"

text \<open>
  The response object of the client library. Only \<open>response.choices[0].text\<close> is read:
  \<open>choices\<close> is \<open>None\<close> when the attribute is missing or cannot be indexed, and the
  \<open>text\<close> of a choice is \<open>None\<close> when it is missing or is not a string.
\<close>

datatype choice = Choice (choice_text: "string option")

datatype response = Response (choices: "choice list option")

record request_payload =
  model :: string
  prompt :: string
  max_tokens :: int
  temperature :: real
  stop :: "string list option"

text \<open>
  The client made by \<open>OpenAI(api_key=...)\<close>: the answer of \<open>completions.create\<close> to a
  request, given how many requests went before it. \<open>Inl e\<close> is a raised exception
  whose \<open>str\<close> is \<open>e\<close>.
\<close>

type_synonym client = "nat \<Rightarrow> request_payload \<Rightarrow> string + response"

text \<open>
  One event of standard input, as \<open>input\<close> meets it: a line (without its newline) or
  an interrupt. The end of the list is the end of input.
\<close>

datatype input_event = Line string | Interrupt

text \<open>
  What the process does to the world, in order. \<open>Prompt\<close> is the prompt that
  \<open>input\<close> shows. \<open>GrayJson label data\<close> is the write of \<open>print_gray_json\<close>: the
  label and the \<open>json.dumps\<close> of \<open>data\<close> between the two colour codes; the data is
  kept as it is handed to \<open>json.dumps\<close>. \<open>LogRequest endpoint items\<close> is the logged
  request dict, \<open>LogResponse r\<close> is \<open>as_serializable(r)\<close>.
\<close>

datatype logdata = LogRequest string request_payload | LogResponse response

datatype out_event =
    Stdout string
  | Stderr string
  | Prompt string
  | GrayJson string logdata

record io =
  out :: "out_event list"
  calls :: "request_payload list"
  files_read :: "string list"

record chat = io +
  transcript :: string

definition io0 :: io where
  "io0 = \<lparr>out = [], calls = [], files_read = []\<rparr>"

definition write_stdout :: "string \<Rightarrow> 'a io_scheme \<Rightarrow> 'a io_scheme" where
  "write_stdout s w = w\<lparr>out := out w @ [Stdout s]\<rparr>"

definition write_stderr :: "string \<Rightarrow> 'a io_scheme \<Rightarrow> 'a io_scheme" where
  "write_stderr s w = w\<lparr>out := out w @ [Stderr s]\<rparr>"

definition show_prompt :: "string \<Rightarrow> 'a io_scheme \<Rightarrow> 'a io_scheme" where
  "show_prompt s w = w\<lparr>out := out w @ [Prompt s]\<rparr>"

definition create :: "client \<Rightarrow> request_payload \<Rightarrow> 'a io_scheme \<Rightarrow> (string + response) \<times> 'a io_scheme" where
  "create cl rq w = (cl (length (calls w)) rq, w\<lparr>calls := calls w @ [rq]\<rparr>)"

definition stdout_of :: "'a io_scheme \<Rightarrow> string list" where
  "stdout_of w = concat (map (\<lambda>e. case e of Stdout s \<Rightarrow> [s] | _ \<Rightarrow> []) (out w))"

definition stderr_of :: "'a io_scheme \<Rightarrow> string list" where
  "stderr_of w = concat (map (\<lambda>e. case e of Stderr s \<Rightarrow> [s] | _ \<Rightarrow> []) (out w))"

section \<open>Functions shared by both programs\<close>

definition get_env :: "environ \<Rightarrow> string \<Rightarrow> string option" where
  "get_env env name =
     (case getenv env name of
        None \<Rightarrow> None
      | Some v \<Rightarrow> if v \<noteq> [] \<and> strip v \<noteq> [] then Some v else None)"

text \<open>\<open>data.get(k)\<close>: only a dict has the method; a missing key gives \<open>None\<close>.\<close>

definition dict_get :: "json_value \<Rightarrow> string \<Rightarrow> py_exn + json_value" where
  "dict_get data k =
     (case data of
        JDict kvs \<Rightarrow> Inr (case map_of kvs k of None \<Rightarrow> JNull | Some v \<Rightarrow> v)
      | _ \<Rightarrow> Inl AttributeError)"

text \<open>The body of the \<open>try\<close> of \<open>get_key_from_json\<close>.\<close>

definition get_key_from_json_try :: "files \<Rightarrow> string \<Rightarrow> py_exn + string option" where
  "get_key_from_json_try fs path =
     (case file_at fs path of
        NotAFile \<Rightarrow> Inr None
      | OpenFails \<Rightarrow> Inl OSError
      | LoadFails \<Rightarrow> Inl ValueError
      | Loaded data \<Rightarrow>
          (case dict_get data ''OPENAI_API_KEY'' of
             Inl e \<Rightarrow> Inl e
           | Inr key \<Rightarrow>
               (if truthy key then
                  (case key of
                     JString s \<Rightarrow> if strip s \<noteq> [] then Inr (Some (strip s)) else Inr None
                   | _ \<Rightarrow> Inr None)
                else Inr None)))"

text \<open>\<open>except Exception: return None\<close>.\<close>

definition get_key_from_json :: "files \<Rightarrow> string \<Rightarrow> string option" where
  "get_key_from_json fs path =
     (case get_key_from_json_try fs path of Inl e \<Rightarrow> None | Inr r \<Rightarrow> r)"

text \<open>
  Line 48 of \<open>completions_01.py\<close> and line 108 of \<open>completions_02.py\<close>:
  \<open>api_key = get_env("OPENAI_API_KEY") or get_key_from_json("/opt/mykey.json")\<close>.
  The right operand of \<open>or\<close> runs only when the left one is falsy; the run of
  \<open>get_key_from_json\<close> is recorded in \<open>files_read\<close>.
\<close>

definition resolve_api_key :: "environ \<Rightarrow> files \<Rightarrow> 'a io_scheme \<Rightarrow> string option \<times> 'a io_scheme" where
  "resolve_api_key env fs w =
     (case get_env env ''OPENAI_API_KEY'' of
        Some v \<Rightarrow>
          (if v \<noteq> [] then (Some v, w)
           else (get_key_from_json fs ''/opt/mykey.json'',
                 w\<lparr>files_read := files_read w @ [''/opt/mykey.json'']\<rparr>))
      | None \<Rightarrow>
          (get_key_from_json fs ''/opt/mykey.json'',
           w\<lparr>files_read := files_read w @ [''/opt/mykey.json'']\<rparr>))"

text \<open>\<open>os.getenv(name, default)\<close>.\<close>

definition getenv_default :: "environ \<Rightarrow> string \<Rightarrow> string \<Rightarrow> string" where
  "getenv_default env name d = (case getenv env name of None \<Rightarrow> d | Some v \<Rightarrow> v)"

text \<open>\<open>response.choices[0].text.strip()\<close>.\<close>

definition extract_text :: "response \<Rightarrow> py_exn + string" where
  "extract_text r =
     (case choices r of
        None \<Rightarrow> Inl AttributeError
      | Some [] \<Rightarrow> Inl IndexError
      | Some (c # cs) \<Rightarrow>
          (case choice_text c of None \<Rightarrow> Inl AttributeError | Some t \<Rightarrow> Inr (strip t)))"

section \<open>The single-shot program, \<open>completions_01.py\<close>\<close>

definition usage_01 :: string where
  \<open>usage_01 =
     ''Usage: completions_01.py "<message>"\<newline>'' @
     ''- The message is read from $1 (first CLI argument).\<newline>''\<close>

definition missing_key_msg :: string where
  "missing_key_msg = ''Error: OPENAI_API_KEY not found. Set it in env or /opt/mykey.json.\<newline>''"

text \<open>Lines 59 to 67: the keyword arguments of the one call of \<open>completions.create\<close>.\<close>

definition request_01 :: "environ \<Rightarrow> string \<Rightarrow> request_payload" where
  "request_01 env message =
     \<lparr>model = getenv_default env ''OPENAI_COMPLETIONS_MODEL'' ''gpt-3.5-turbo-instruct'',
      prompt = message, max_tokens = 256, temperature = 7 / 10, stop = None\<rparr>"

text \<open>
  \<open>main\<close> of \<open>completions_01.py\<close>: \<open>argv\<close> is \<open>sys.argv\<close> (the program name first),
  \<open>openai\<close> is the constructor \<open>OpenAI\<close>. The result is the exit code and the effects.
  \<open>if not api_key\<close> holds of \<open>None\<close> and of the empty string.
\<close>

definition main_01 :: "string list \<Rightarrow> environ \<Rightarrow> files \<Rightarrow> (string \<Rightarrow> client) \<Rightarrow> int \<times> io" where
  "main_01 argv env fs openai =
     (if length argv < 2 then (1, write_stderr usage_01 io0)
      else
        let message = argv ! 1;
            (api_key, w1) = resolve_api_key env fs io0
        in case api_key of
             None \<Rightarrow> (1, write_stderr missing_key_msg w1)
           | Some k \<Rightarrow>
               if k = [] then (1, write_stderr missing_key_msg w1)
               else
                 (let (res, w2) = create (openai k) (request_01 env message) w1
                  in (case res of
                        Inl error \<Rightarrow>
                          (2, write_stderr (''API error: '' @ error @ ''\<newline>'') w2)
                      | Inr response \<Rightarrow>
                          (case extract_text response of
                             Inl e \<Rightarrow>
                               (2, write_stderr ''Unexpected response format.\<newline>'' w2)
                           | Inr t \<Rightarrow> (0, write_stdout (t @ ''\<newline>'') w2)))))"

section \<open>The interactive program, \<open>completions_02.py\<close>\<close>

record args =
  args_model :: string
  args_temperature :: real
  args_max_tokens :: int
  args_system :: string
  args_verbose :: bool

definition print_gray_json :: "string \<Rightarrow> logdata \<Rightarrow> 'a io_scheme \<Rightarrow> 'a io_scheme" where
  "print_gray_json label data w = w\<lparr>out := out w @ [GrayJson label data]\<rparr>"

definition build_prompt :: "string \<Rightarrow> string \<Rightarrow> string \<Rightarrow> string" where
  "build_prompt system_text transcript_text user_message =
     (let header = (if system_text \<noteq> [] then system_text @ ''\<newline>\<newline>'' else [])
      in header @ transcript_text @ ''User: '' @ user_message @ ''\<newline>Assistant:'')"

text \<open>Lines 132 to 140: the prompt and the request of one iteration.\<close>

definition request_02 :: "args \<Rightarrow> string \<Rightarrow> string \<Rightarrow> request_payload" where
  "request_02 a transcript_text user_input =
     \<lparr>model = args_model a,
      prompt = build_prompt (args_system a) transcript_text user_input,
      max_tokens = args_max_tokens a,
      temperature = args_temperature a,
      stop = Some [''\<newline>User:'', ''User:'']\<rparr>"

text \<open>
  Lines 145 to 148: the dict that verbose mode logs. Every item of the request is kept
  but the prompt, which is cut after 1000 characters when it is longer.
\<close>

definition logged_request :: "request_payload \<Rightarrow> logdata" where
  "logged_request rq =
     LogRequest ''completions.create''
       (rq\<lparr>prompt := (if length (prompt rq) \<le> 1000 then prompt rq
                        else take 1000 (prompt rq) @ ''... [truncated]'')\<rparr>)"

text \<open>How an iteration ends: \<open>break\<close>, or \<open>continue\<close> and the fall through the end of the body.\<close>

datatype 'a ctl = Break 'a | Continue 'a

fun the_state :: "'a ctl \<Rightarrow> 'a" where
  "the_state (Break s) = s"
| "the_state (Continue s) = s"


text \<open>
  One iteration of the \<open>while True\<close> loop after \<open>input\<close> has returned the raw line:
  line 122 (the \<open>strip\<close>) and lines 127 to 169.
\<close>

definition loop_body :: "args \<Rightarrow> client \<Rightarrow> string \<Rightarrow> chat \<Rightarrow> chat ctl" where
  "loop_body a cl raw st =
     (let user_input = strip raw in
      if user_input = [] then Continue st
      else if lower user_input \<in> {''exit'', ''quit''} then Break st
      else
        let rq = request_02 a (transcript st) user_input;
            st1 = (if args_verbose a
                   then print_gray_json ''>> Request:'' (logged_request rq) st
                   else st);
            (res, st2) = create cl rq st1
        in (case res of
              Inl error \<Rightarrow>
                Continue (write_stderr (''API error: '' @ error @ ''\<newline>'') st2)
            | Inr response \<Rightarrow>
                (let st3 = (if args_verbose a
                            then print_gray_json ''<< Response:'' (LogResponse response) st2
                            else st2)
                 in (case extract_text response of
                       Inl e \<Rightarrow>
                         Continue (write_stderr ''Unexpected response format.\<newline>'' st3)
                     | Inr assistant_text \<Rightarrow>
                         (let st4 = write_stdout
                                      (''Assistant: '' @ assistant_text @ ''\<newline>'') st3
                          in Continue
                               (st4\<lparr>transcript :=
                                      transcript st4 @ ''User: '' @ user_input @
                                      ''\<newline>Assistant: '' @ assistant_text @
                                      ''\<newline>''\<rparr>))))))"

text \<open>
  The \<open>while True\<close> loop. \<open>input("You: ")\<close> shows the prompt and then returns the next
  line, or raises \<open>EOFError\<close> at the end of input and \<open>KeyboardInterrupt\<close> on an
  interrupt; both write a newline and leave the loop.
\<close>

fun chat_loop :: "args \<Rightarrow> client \<Rightarrow> input_event list \<Rightarrow> chat \<Rightarrow> chat" where
  "chat_loop a cl [] st = write_stdout ''\<newline>'' (show_prompt ''You: '' st)"
| "chat_loop a cl (Interrupt # rest) st = write_stdout ''\<newline>'' (show_prompt ''You: '' st)"
| "chat_loop a cl (Line raw # rest) st =
     (case loop_body a cl raw (show_prompt ''You: '' st) of
        Break st' \<Rightarrow> st'
      | Continue st' \<Rightarrow> chat_loop a cl rest st')"

definition banner_02 :: string where
  \<open>banner_02 = ''Type "exit" to quit.\<newline>''\<close>

definition chat0 :: chat where
  "chat0 = \<lparr>out = [], calls = [], files_read = [], transcript = []\<rparr>"

text \<open>
  \<open>main\<close> of \<open>completions_02.py\<close>, from the parsed arguments on (\<open>argparse\<close> has filled
  \<open>a\<close>). The result is the exit code and the final state; the transcript is empty
  until the loop appends to it.
\<close>

definition main_02 :: "args \<Rightarrow> environ \<Rightarrow> files \<Rightarrow> (string \<Rightarrow> client) \<Rightarrow> input_event list \<Rightarrow> int \<times> chat" where
  "main_02 a env fs openai stdin =
     (let (api_key, w1) = resolve_api_key env fs chat0
      in case api_key of
           None \<Rightarrow> (1, write_stderr missing_key_msg w1)
         | Some k \<Rightarrow>
             if k = [] then (1, write_stderr missing_key_msg w1)
             else (0, chat_loop a (openai k) stdin (write_stdout banner_02 w1)))"

text \<open>
  Lines 75 to 106 when no flag is given: \<open>argparse\<close> fills every option with its
  default, two of them read from the environment.
\<close>

definition default_args :: "environ \<Rightarrow> args" where
  "default_args env =
     \<lparr>args_model = getenv_default env ''OPENAI_COMPLETIONS_MODEL'' ''gpt-3.5-turbo-instruct'',
      args_temperature = 7 / 10,
      args_max_tokens = 256,
      args_system = getenv_default env ''OPENAI_SYSTEM_INSTRUCTION'' ''You are a helpful assistant.'',
      args_verbose = False\<rparr>"

text \<open>
  What the two \<open>if args.verbose\<close> blocks of an iteration write: the request before
  the call (lines 142 to 149), the response after it (lines 157 and 158).
\<close>

definition request_log :: "args \<Rightarrow> request_payload \<Rightarrow> out_event list" where
  "request_log a rq =
     (if args_verbose a then [GrayJson ''>> Request:'' (logged_request rq)] else [])"

definition response_log :: "args \<Rightarrow> response \<Rightarrow> out_event list" where
  "response_log a r =
     (if args_verbose a then [GrayJson ''<< Response:'' (LogResponse r)] else [])"

text \<open>The defaults with an empty system instruction and \<open>--verbose\<close>.\<close>

definition verbose_args :: args where
  "verbose_args = (default_args [])\<lparr>args_system := [], args_verbose := True\<rparr>"

section \<open>A scripted client\<close>

text \<open>
  A client for concrete runs: \<open>scripted answers\<close> is an \<open>OpenAI\<close> constructor whose
  client answers its \<open>n\<close>-th request with the \<open>n\<close>-th entry of \<open>answers\<close>, and fails
  once they are used up.
\<close>

definition scripted :: "(string + response) list \<Rightarrow> string \<Rightarrow> client" where
  "scripted answers k n rq = (if n < length answers then answers ! n else Inl ''no answer'')"

section \<open>Stripping and lower-casing\<close>

lemma strip_all_space:
  assumes "\<forall>c\<in>set s. isspace c"
  shows "strip s = []"
proof -
  have d: "dropWhile isspace s = []" using assms by simp
  show ?thesis unfolding strip_def d by simp
qed

lemma strip_fix:
  assumes "s = [] \<or> (\<not> isspace (hd s) \<and> \<not> isspace (last s))"
  shows "strip s = s"
proof (cases "s = []")
  case True
  then show ?thesis by (simp add: strip_def)
next
  case False
  with assms have h: "\<not> isspace (hd s)" and l: "\<not> isspace (last s)" by auto
  from False h have d: "dropWhile isspace s = s" by (cases s) auto
  from False l have "dropWhile isspace (rev s) = rev s" by (cases s rule: rev_cases) auto
  with d show ?thesis by (simp add: strip_def)
qed

lemma strip_ends:
  assumes "strip s \<noteq> []"
  shows "\<not> isspace (hd (strip s)) \<and> \<not> isspace (last (strip s))"
proof -
  define d where "d = dropWhile isspace s"
  define e where "e = dropWhile isspace (rev d)"
  have se: "strip s = rev e" by (simp add: strip_def d_def e_def)
  with assms have ne: "e \<noteq> []" by simp
  then have he: "\<not> isspace (hd e)" unfolding e_def by (rule hd_dropWhile)
  have "rev d = takeWhile isspace (rev d) @ e" by (simp add: e_def)
  then have "d = rev e @ rev (takeWhile isspace (rev d))"
    by (metis rev_append rev_rev_ident)
  with ne have hd: "hd (rev e) = hd d" and dn: "d \<noteq> []"
    by (metis hd_append2 rev_is_Nil_conv, metis append_is_Nil_conv rev_is_Nil_conv)
  from dn have "\<not> isspace (hd d)" unfolding d_def by (rule hd_dropWhile)
  with hd he ne se show ?thesis by (simp add: last_rev)
qed

lemma strip_idem: "strip (strip s) = strip s"
  using strip_ends [of s] strip_fix [of "strip s"] by blast

lemma strip_no_space:
  assumes "\<forall>c\<in>set s. \<not> isspace c"
  shows "strip s = s"
proof (rule strip_fix)
  show "s = [] \<or> (\<not> isspace (hd s) \<and> \<not> isspace (last s))"
    using assms by (cases "s = []") auto
qed

lemma isspace_lower: "isspace c \<Longrightarrow> lower_char c = c"
  by (auto simp: isspace_def lower_char_def Let_def)

lemma lower_exit_no_space:
  assumes "lower l \<in> {''exit'', ''quit''}"
  shows "\<forall>c\<in>set l. \<not> isspace c"
proof
  fix c
  assume c: "c \<in> set l"
  show "\<not> isspace c"
  proof
    assume sp: "isspace c"
    then have "lower_char c = c" by (rule isspace_lower)
    with c have "c \<in> set (lower l)" by (force simp: lower_def)
    with assms have "c \<in> set ''exit'' \<or> c \<in> set ''quit''" by auto
    with sp show False by (auto simp: isspace_def)
  qed
qed

lemma strip_lower_exit: "lower l \<in> {''exit'', ''quit''} \<Longrightarrow> strip l = l"
  by (rule strip_no_space) (rule lower_exit_no_space)

section \<open>The prompt builder\<close>

text \<open>
  C3. For every system instruction \<open>s\<close>, transcript \<open>t\<close> and user message \<open>m\<close>,
  \<open>build_prompt\<close> returns \<open>s\<close> and a blank line when \<open>s\<close> is not empty (nothing
  otherwise), then \<open>t\<close>, then \<open>User: m\<close>, a newline and \<open>Assistant:\<close>. For the
  system instruction \<open>You are terse.\<close>, the empty transcript and the message \<open>Hi\<close>
  the prompt is the system instruction, two newlines, \<open>User: Hi\<close>, a newline and
  \<open>Assistant:\<close>.
\<close>

theorem build_prompt_concatenation:
  "build_prompt s t m =
     (if s \<noteq> [] then s @ ''\<newline>\<newline>'' else []) @ t @
     ''User: '' @ m @ ''\<newline>Assistant:''
   \<and> build_prompt ''You are terse.'' [] ''Hi'' =
     ''You are terse.'' @ ''\<newline>\<newline>'' @ ''User: Hi'' @ ''\<newline>'' @ ''Assistant:''"
  by (simp add: build_prompt_def)

theorem build_prompt_concatenation_witness:
  "build_prompt [] ''User: a\<newline>Assistant: b\<newline>'' ''c'' =
     ''User: a\<newline>Assistant: b\<newline>User: c\<newline>Assistant:''"
  using build_prompt_concatenation [of "[]" "''User: a\<newline>Assistant: b\<newline>''" "''c''"]
  by simp

section \<open>Credential resolution\<close>

lemma strip_nonempty: "strip v \<noteq> [] \<Longrightarrow> v \<noteq> []"
  by (auto simp: strip_def)

lemma get_env_Some:
  "getenv env n = Some v \<Longrightarrow> strip v \<noteq> [] \<Longrightarrow> get_env env n = Some v"
  by (auto simp: get_env_def dest: strip_nonempty)

lemma get_env_None:
  "getenv env n = None \<or> (\<exists>v. getenv env n = Some v \<and> strip v = []) \<Longrightarrow>
   get_env env n = None"
  by (auto simp: get_env_def)

lemma get_env_nonempty: "get_env env n = Some v \<Longrightarrow> v \<noteq> []"
  by (auto simp: get_env_def split: option.splits if_splits)

lemma get_key_from_json_nonempty: "get_key_from_json fs p = Some k \<Longrightarrow> k \<noteq> []"
  by (auto simp: get_key_from_json_def get_key_from_json_try_def dict_get_def
      split: file_state.splits json_value.splits option.splits if_splits sum.splits)

lemma get_key_from_json_Some:
  "file_at fs p = Loaded (JDict kvs) \<Longrightarrow>
   map_of kvs ''OPENAI_API_KEY'' = Some (JString s) \<Longrightarrow>
   strip s \<noteq> [] \<Longrightarrow> get_key_from_json fs p = Some (strip s)"
  by (auto simp: get_key_from_json_def get_key_from_json_try_def dict_get_def
      dest: strip_nonempty)

lemma get_key_from_json_absent: "get_key_from_json [] p = None"
  by (simp add: get_key_from_json_def get_key_from_json_try_def file_at_def)

lemma resolve_env:
  "get_env env ''OPENAI_API_KEY'' = Some v \<Longrightarrow> resolve_api_key env fs w = (Some v, w)"
  by (auto simp: resolve_api_key_def dest: get_env_nonempty)

lemma resolve_file:
  "get_env env ''OPENAI_API_KEY'' = None \<Longrightarrow>
   resolve_api_key env fs w =
     (get_key_from_json fs ''/opt/mykey.json'',
      w\<lparr>files_read := files_read w @ [''/opt/mykey.json'']\<rparr>)"
  by (simp add: resolve_api_key_def)

lemma resolve_nonempty: "fst (resolve_api_key env fs w) = Some k \<Longrightarrow> k \<noteq> []"
  by (auto simp: resolve_api_key_def split: option.splits if_splits
      dest: get_key_from_json_nonempty)

lemma calls_resolve: "calls (snd (resolve_api_key env fs w)) = calls w"
  by (simp add: resolve_api_key_def split: option.splits)

lemma out_resolve: "out (snd (resolve_api_key env fs w)) = out w"
  by (simp add: resolve_api_key_def split: option.splits)

lemma resolve_cong:
  "get_key_from_json fs ''/opt/mykey.json'' = get_key_from_json fs' ''/opt/mykey.json'' \<Longrightarrow>
   resolve_api_key env fs w = resolve_api_key env fs' w"
  by (simp add: resolve_api_key_def split: option.splits)

lemma main_01_cong:
  "resolve_api_key env fs io0 = resolve_api_key env fs' io0 \<Longrightarrow>
   main_01 argv env fs openai = main_01 argv env fs' openai"
  by (simp add: main_01_def)

lemma main_02_cong:
  "resolve_api_key env fs chat0 = resolve_api_key env fs' chat0 \<Longrightarrow>
   main_02 a env fs openai stdin = main_02 a env fs' openai stdin"
  by (simp add: main_02_def)

lemma main_01_missing:
  "2 \<le> length argv \<Longrightarrow> get_env env ''OPENAI_API_KEY'' = None \<Longrightarrow>
   get_key_from_json fs ''/opt/mykey.json'' = None \<Longrightarrow>
   main_01 argv env fs openai =
     (1, \<lparr>out = [Stderr missing_key_msg], calls = [], files_read = [''/opt/mykey.json'']\<rparr>)"
  by (simp add: main_01_def resolve_file io0_def write_stderr_def)

lemma main_02_missing:
  "get_env env ''OPENAI_API_KEY'' = None \<Longrightarrow>
   get_key_from_json fs ''/opt/mykey.json'' = None \<Longrightarrow>
   main_02 a env fs openai stdin =
     (1, \<lparr>out = [Stderr missing_key_msg], calls = [], files_read = [''/opt/mykey.json''],
          transcript = []\<rparr>)"
  by (simp add: main_02_def resolve_file chat0_def write_stderr_def)

text \<open>
  C1, as the code has it. An environment value of \<open>OPENAI_API_KEY\<close> that has a
  character other than white space is returned as it is, and the file is not read
  (the effects are unchanged, whatever the file system holds). When the variable is
  unset, empty or white space only, and \<open>/opt/mykey.json\<close> holds an object with a string
  under \<open>OPENAI_API_KEY\<close> that has a character other than white space, the result is
  that string with the white space at both ends removed. When the variable is unset,
  empty or white space only and the file lookup gives nothing, there is no credential:
  the interactive program, and the single-shot program once it has its argument, write
  the error to standard error and return 1 without calling the client.
\<close>

theorem resolve_api_key_order:
  "(getenv env ''OPENAI_API_KEY'' = Some v \<and> strip v \<noteq> [] \<longrightarrow>
      resolve_api_key env fs w = (Some v, w))
   \<and> ((getenv env ''OPENAI_API_KEY'' = None \<or>
        (\<exists>b. getenv env ''OPENAI_API_KEY'' = Some b \<and> strip b = [])) \<longrightarrow>
      (file_at fs ''/opt/mykey.json'' = Loaded (JDict kvs) \<and>
       map_of kvs ''OPENAI_API_KEY'' = Some (JString s) \<and> strip s \<noteq> [] \<longrightarrow>
         resolve_api_key env fs w =
           (Some (strip s), w\<lparr>files_read := files_read w @ [''/opt/mykey.json'']\<rparr>))
      \<and> (get_key_from_json fs ''/opt/mykey.json'' = None \<longrightarrow>
           fst (resolve_api_key env fs w) = None
         \<and> (2 \<le> length argv \<longrightarrow>
              main_01 argv env fs openai =
                (1, \<lparr>out = [Stderr missing_key_msg], calls = [],
                     files_read = [''/opt/mykey.json'']\<rparr>))
         \<and> main_02 a env fs openai stdin =
              (1, \<lparr>out = [Stderr missing_key_msg], calls = [],
                   files_read = [''/opt/mykey.json''], transcript = []\<rparr>)))"
proof (intro conjI impI)
  assume "getenv env ''OPENAI_API_KEY'' = Some v \<and> strip v \<noteq> []"
  then show "resolve_api_key env fs w = (Some v, w)"
    by (simp add: resolve_env get_env_Some)
next
  assume "getenv env ''OPENAI_API_KEY'' = None \<or>
        (\<exists>b. getenv env ''OPENAI_API_KEY'' = Some b \<and> strip b = [])"
  then have n: "get_env env ''OPENAI_API_KEY'' = None" by (rule get_env_None)
  {
    assume "file_at fs ''/opt/mykey.json'' = Loaded (JDict kvs) \<and>
       map_of kvs ''OPENAI_API_KEY'' = Some (JString s) \<and> strip s \<noteq> []"
    then show "resolve_api_key env fs w =
           (Some (strip s), w\<lparr>files_read := files_read w @ [''/opt/mykey.json'']\<rparr>)"
      using n by (simp add: resolve_file get_key_from_json_Some)
  }
  {
    assume f: "get_key_from_json fs ''/opt/mykey.json'' = None"
    show "fst (resolve_api_key env fs w) = None" using n f by (simp add: resolve_file)
    show "main_02 a env fs openai stdin =
              (1, \<lparr>out = [Stderr missing_key_msg], calls = [],
                   files_read = [''/opt/mykey.json''], transcript = []\<rparr>)"
      using n f by (rule main_02_missing)
    assume "2 \<le> length argv"
    then show "main_01 argv env fs openai =
                (1, \<lparr>out = [Stderr missing_key_msg], calls = [],
                     files_read = [''/opt/mykey.json'']\<rparr>)"
      using n f by (rule main_01_missing)
  }
qed

theorem resolve_api_key_order_witness:
  "resolve_api_key [(''OPENAI_API_KEY'', '' sk-env '')]
      [(''/opt/mykey.json'', Loaded (JDict [(''OPENAI_API_KEY'', JString ''sk-file'')]))] io0 =
     (Some '' sk-env '', io0)
   \<and> resolve_api_key [(''OPENAI_API_KEY'', [])]
      [(''/opt/mykey.json'', Loaded (JDict [(''OPENAI_API_KEY'', JString '' sk-file '')]))] io0 =
     (Some ''sk-file'', io0\<lparr>files_read := files_read io0 @ [''/opt/mykey.json'']\<rparr>)
   \<and> main_01 [''completions_01.py'', ''Hi''] [] [(''/opt/mykey.json'', LoadFails)]
        (scripted []) =
     (1, \<lparr>out = [Stderr missing_key_msg], calls = [], files_read = [''/opt/mykey.json'']\<rparr>)"
proof -
  have h1: "getenv [(''OPENAI_API_KEY'', '' sk-env '')] ''OPENAI_API_KEY'' = Some '' sk-env '' \<and>
            strip '' sk-env '' \<noteq> []"
    by code_simp
  have h2: "getenv [(''OPENAI_API_KEY'', [])] ''OPENAI_API_KEY'' = Some [] \<and> strip [] = []"
    by code_simp
  have h3: "file_at [(''/opt/mykey.json'',
                      Loaded (JDict [(''OPENAI_API_KEY'', JString '' sk-file '')]))]
              ''/opt/mykey.json'' = Loaded (JDict [(''OPENAI_API_KEY'', JString '' sk-file '')]) \<and>
            map_of [(''OPENAI_API_KEY'', JString '' sk-file '')] ''OPENAI_API_KEY'' =
              Some (JString '' sk-file '') \<and> strip '' sk-file '' \<noteq> []"
    by code_simp
  have s: "strip '' sk-file '' = ''sk-file''" by code_simp
  have h4: "getenv [] ''OPENAI_API_KEY'' = None" by code_simp
  have h5: "get_key_from_json [(''/opt/mykey.json'', LoadFails)] ''/opt/mykey.json'' = None"
    by code_simp
  have h6: "2 \<le> length [''completions_01.py'', ''Hi'']" by simp
  note a = resolve_api_key_order [of "[(''OPENAI_API_KEY'', '' sk-env '')]" "'' sk-env ''"
      "[(''/opt/mykey.json'', Loaded (JDict [(''OPENAI_API_KEY'', JString ''sk-file'')]))]" io0]
  note b = resolve_api_key_order [of "[(''OPENAI_API_KEY'', [])]" _
      "[(''/opt/mykey.json'', Loaded (JDict [(''OPENAI_API_KEY'', JString '' sk-file '')]))]" io0
      "[(''OPENAI_API_KEY'', JString '' sk-file '')]" "'' sk-file ''"]
  note c = resolve_api_key_order [of "[]" _ "[(''/opt/mykey.json'', LoadFails)]" _ _ _
      "[''completions_01.py'', ''Hi'']" "scripted []"]
  from a h1 have r1: "resolve_api_key [(''OPENAI_API_KEY'', '' sk-env '')]
      [(''/opt/mykey.json'', Loaded (JDict [(''OPENAI_API_KEY'', JString ''sk-file'')]))] io0 =
     (Some '' sk-env '', io0)"
    by blast
  from b h2 h3 have r2: "resolve_api_key [(''OPENAI_API_KEY'', [])]
      [(''/opt/mykey.json'', Loaded (JDict [(''OPENAI_API_KEY'', JString '' sk-file '')]))] io0 =
     (Some (strip '' sk-file ''),
      io0\<lparr>files_read := files_read io0 @ [''/opt/mykey.json'']\<rparr>)"
    by blast
  from c h4 h5 h6 have r3:
    "main_01 [''completions_01.py'', ''Hi''] [] [(''/opt/mykey.json'', LoadFails)]
        (scripted []) =
     (1, \<lparr>out = [Stderr missing_key_msg], calls = [], files_read = [''/opt/mykey.json'']\<rparr>)"
    by blast
  from r1 r2 r3 s show ?thesis by simp
qed

text \<open>
  C1 as it is written fails on an environment value that is one blank: the value is
  not empty, yet the resolver reads the file and returns the file's value, and that
  value comes back without the blanks around it.
\<close>

theorem resolve_api_key_blank_env_counterexample:
  "'' '' \<noteq> [] \<and>
   resolve_api_key [(''OPENAI_API_KEY'', '' '')]
      [(''/opt/mykey.json'', Loaded (JDict [(''OPENAI_API_KEY'', JString '' k '')]))] io0 =
     (Some ''k'', \<lparr>out = [], calls = [], files_read = [''/opt/mykey.json'']\<rparr>)"
  by code_simp

text \<open>
  C8. When the credential file cannot be opened, cannot be read as JSON, holds JSON
  that is not an object (a list, a string, a number, a bool or null, on which
  \<open>data.get\<close> raises), is an object without the key \<open>OPENAI_API_KEY\<close>, or holds
  under that key a value that is not a string or a string of white space only,
  \<open>get_key_from_json\<close> returns \<open>None\<close>, as it does when there is no file; and
  both programs then run exactly as they do with no file at all: same exit code, same
  output, nothing more on standard error.
\<close>

theorem get_key_from_json_degrades:
  assumes "file_at fs p = OpenFails
     \<or> file_at fs p = LoadFails
     \<or> (\<exists>d. file_at fs p = Loaded d \<and> (\<forall>kvs. d \<noteq> JDict kvs))
     \<or> (\<exists>kvs. file_at fs p = Loaded (JDict kvs) \<and> map_of kvs ''OPENAI_API_KEY'' = None)
     \<or> (\<exists>kvs x. file_at fs p = Loaded (JDict kvs) \<and>
           map_of kvs ''OPENAI_API_KEY'' = Some x \<and> (\<forall>s. x \<noteq> JString s))
     \<or> (\<exists>kvs s. file_at fs p = Loaded (JDict kvs) \<and>
           map_of kvs ''OPENAI_API_KEY'' = Some (JString s) \<and> (\<forall>c\<in>set s. isspace c))"
  shows "get_key_from_json fs p = None
     \<and> get_key_from_json fs p = get_key_from_json [] p
     \<and> (p = ''/opt/mykey.json'' \<longrightarrow>
          resolve_api_key env fs w = resolve_api_key env [] w
        \<and> main_01 argv env fs openai = main_01 argv env [] openai
        \<and> main_02 a env fs openai stdin = main_02 a env [] openai stdin)"
proof -
  have n: "get_key_from_json fs p = None"
    using assms
  proof (elim disjE exE conjE)
    fix d
    assume "file_at fs p = Loaded d" "\<forall>kvs. d \<noteq> JDict kvs"
    then show ?thesis
      by (cases d) (simp_all add: get_key_from_json_def get_key_from_json_try_def dict_get_def)
  next
    fix kvs x
    assume "file_at fs p = Loaded (JDict kvs)" "map_of kvs ''OPENAI_API_KEY'' = Some x"
      "\<forall>s. x \<noteq> JString s"
    then show ?thesis
      by (cases x) (simp_all add: get_key_from_json_def get_key_from_json_try_def dict_get_def)
  next
    fix kvs s
    assume "file_at fs p = Loaded (JDict kvs)"
      "map_of kvs ''OPENAI_API_KEY'' = Some (JString s)" "\<forall>c\<in>set s. isspace c"
    then show ?thesis
      by (simp add: get_key_from_json_def get_key_from_json_try_def dict_get_def
          strip_all_space)
  qed (simp_all add: get_key_from_json_def get_key_from_json_try_def dict_get_def)
  then have e: "get_key_from_json fs p = get_key_from_json [] p"
    by (simp add: get_key_from_json_absent)
  have "resolve_api_key env fs w = resolve_api_key env [] w
        \<and> main_01 argv env fs openai = main_01 argv env [] openai
        \<and> main_02 a env fs openai stdin = main_02 a env [] openai stdin"
    if "p = ''/opt/mykey.json''"
  proof -
    from that e have k:
      "get_key_from_json fs ''/opt/mykey.json'' = get_key_from_json [] ''/opt/mykey.json''"
      by simp
    have r: "resolve_api_key env fs v = resolve_api_key env [] v" for v :: "'b io_scheme"
      using k by (rule resolve_cong)
    from r have m1: "main_01 argv env fs openai = main_01 argv env [] openai"
      by (rule main_01_cong)
    from r have m2: "main_02 a env fs openai stdin = main_02 a env [] openai stdin"
      by (rule main_02_cong)
    from r m1 m2 show ?thesis by blast
  qed
  with n e show ?thesis by blast
qed

theorem get_key_from_json_degrades_witness:
  "get_key_from_json [(''/opt/mykey.json'', LoadFails)] ''/opt/mykey.json'' = None
   \<and> get_key_from_json
        [(''/opt/mykey.json'', Loaded (JDict [(''OPENAI_API_KEY'', JString '' \<newline>'')]))]
        ''/opt/mykey.json'' = None
   \<and> get_key_from_json
        [(''/opt/mykey.json'', Loaded (JDict [(''OPENAI_API_KEY'', JInt 5)]))]
        ''/opt/mykey.json'' = None
   \<and> get_key_from_json
        [(''/opt/mykey.json'', Loaded (JList [JString ''sk-in-a-list'']))]
        ''/opt/mykey.json'' = None
   \<and> get_key_from_json [(''/opt/mykey.json'', Loaded (JString ''sk-bare''))]
        ''/opt/mykey.json'' = None
   \<and> main_01 [''completions_01.py'', ''Hi''] [] [(''/opt/mykey.json'', OpenFails)] (scripted []) =
     main_01 [''completions_01.py'', ''Hi''] [] [] (scripted [])"
proof -
  have h5: "file_at [(''/opt/mykey.json'', Loaded (JList [JString ''sk-in-a-list'']))]
              ''/opt/mykey.json'' = Loaded (JList [JString ''sk-in-a-list'']) \<and>
            (\<forall>kvs. JList [JString ''sk-in-a-list''] \<noteq> JDict kvs)"
    by (simp add: file_at_def)
  have h6: "file_at [(''/opt/mykey.json'', Loaded (JString ''sk-bare''))]
              ''/opt/mykey.json'' = Loaded (JString ''sk-bare'') \<and>
            (\<forall>kvs. JString ''sk-bare'' \<noteq> JDict kvs)"
    by (simp add: file_at_def)
  from h5 get_key_from_json_degrades
    [of "[(''/opt/mykey.json'', Loaded (JList [JString ''sk-in-a-list'']))]"
      "''/opt/mykey.json''"]
  have r5: "get_key_from_json
        [(''/opt/mykey.json'', Loaded (JList [JString ''sk-in-a-list'']))]
        ''/opt/mykey.json'' = None"
    by blast
  from h6 get_key_from_json_degrades
    [of "[(''/opt/mykey.json'', Loaded (JString ''sk-bare''))]" "''/opt/mykey.json''"]
  have r6: "get_key_from_json [(''/opt/mykey.json'', Loaded (JString ''sk-bare''))]
        ''/opt/mykey.json'' = None"
    by blast
  have h1: "file_at [(''/opt/mykey.json'', LoadFails)] ''/opt/mykey.json'' = LoadFails"
    by code_simp
  have h2: "file_at [(''/opt/mykey.json'', Loaded (JDict [(''OPENAI_API_KEY'', JString '' \<newline>'')]))]
              ''/opt/mykey.json'' = Loaded (JDict [(''OPENAI_API_KEY'', JString '' \<newline>'')]) \<and>
            map_of [(''OPENAI_API_KEY'', JString '' \<newline>'')] ''OPENAI_API_KEY'' =
              Some (JString '' \<newline>'') \<and> (\<forall>c\<in>set '' \<newline>''. isspace c)"
    by code_simp
  have h3: "file_at [(''/opt/mykey.json'', Loaded (JDict [(''OPENAI_API_KEY'', JInt 5)]))]
              ''/opt/mykey.json'' = Loaded (JDict [(''OPENAI_API_KEY'', JInt 5)]) \<and>
            map_of [(''OPENAI_API_KEY'', JInt 5)] ''OPENAI_API_KEY'' = Some (JInt 5) \<and>
            (\<forall>s. JInt 5 \<noteq> JString s)"
    by (simp add: file_at_def)
  have h4: "file_at [(''/opt/mykey.json'', OpenFails)] ''/opt/mykey.json'' = OpenFails"
    by code_simp
  from h1 get_key_from_json_degrades [of "[(''/opt/mykey.json'', LoadFails)]" "''/opt/mykey.json''"]
  have r1: "get_key_from_json [(''/opt/mykey.json'', LoadFails)] ''/opt/mykey.json'' = None"
    by blast
  from h2 get_key_from_json_degrades
    [of "[(''/opt/mykey.json'', Loaded (JDict [(''OPENAI_API_KEY'', JString '' \<newline>'')]))]"
      "''/opt/mykey.json''"]
  have r2: "get_key_from_json
        [(''/opt/mykey.json'', Loaded (JDict [(''OPENAI_API_KEY'', JString '' \<newline>'')]))]
        ''/opt/mykey.json'' = None"
    by blast
  from h3 get_key_from_json_degrades
    [of "[(''/opt/mykey.json'', Loaded (JDict [(''OPENAI_API_KEY'', JInt 5)]))]"
      "''/opt/mykey.json''"]
  have r3: "get_key_from_json
        [(''/opt/mykey.json'', Loaded (JDict [(''OPENAI_API_KEY'', JInt 5)]))]
        ''/opt/mykey.json'' = None"
    by blast
  from h4 get_key_from_json_degrades
    [of "[(''/opt/mykey.json'', OpenFails)]" "''/opt/mykey.json''" "[]" _
      "[''completions_01.py'', ''Hi'']" "scripted []"]
  have r4: "main_01 [''completions_01.py'', ''Hi''] [] [(''/opt/mykey.json'', OpenFails)] (scripted []) =
     main_01 [''completions_01.py'', ''Hi''] [] [] (scripted [])"
    by blast
  from r1 r2 r3 r4 r5 r6 show ?thesis by blast
qed

section \<open>The exit code of the single-shot program\<close>

lemma extract_text_fail:
  "choices r = None \<or> choices r = Some [] \<or>
   (\<exists>c cs. choices r = Some (c # cs) \<and> choice_text c = None) \<Longrightarrow>
   \<exists>x. extract_text r = Inl x"
  by (auto simp: extract_text_def)

lemma extract_text_ok:
  "choices r = Some (Choice (Some t) # cs) \<Longrightarrow> extract_text r = Inr (strip t)"
  by (simp add: extract_text_def)

lemma main_01_no_arg: "length argv < 2 \<Longrightarrow> main_01 argv env fs openai = (1, write_stderr usage_01 io0)"
  by (simp add: main_01_def)

lemma main_01_no_key:
  "fst (resolve_api_key env fs io0) = None \<Longrightarrow> fst (main_01 argv env fs openai) = 1"
  by (cases "resolve_api_key env fs io0") (simp add: main_01_def)

lemma main_01_call:
  assumes "2 \<le> length argv" and "fst (resolve_api_key env fs io0) = Some k"
  shows "main_01 argv env fs openai =
     (let w1 = snd (resolve_api_key env fs io0);
          w2 = w1\<lparr>calls := calls w1 @ [request_01 env (argv ! 1)]\<rparr>
      in case openai k 0 (request_01 env (argv ! 1)) of
           Inl error \<Rightarrow> (2, write_stderr (''API error: '' @ error @ ''\<newline>'') w2)
         | Inr response \<Rightarrow>
             (case extract_text response of
                Inl e \<Rightarrow> (2, write_stderr ''Unexpected response format.\<newline>'' w2)
              | Inr t \<Rightarrow> (0, write_stdout (t @ ''\<newline>'') w2)))"
proof -
  from assms(2) have k: "k \<noteq> []" by (rule resolve_nonempty)
  have c: "calls (snd (resolve_api_key env fs io0)) = []"
    by (simp add: calls_resolve io0_def)
  show ?thesis
    using assms k c
    by (cases "resolve_api_key env fs io0") (simp add: main_01_def create_def Let_def)
qed

text \<open>
  C2. \<open>completions_01.py\<close> reads its message from the first argument. Its exit code
  is 1 when the argument is missing or no credential is found; 2 when the client call
  raises (the error goes to standard error) or the response has no \<open>choices\<close>, no
  first choice or no \<open>text\<close> in it; and 0 otherwise, and then standard output is the
  stripped text of the first choice and a newline. There is no other exit code.
\<close>

theorem main_01_exit_code:
  "fst (main_01 argv env fs openai) \<in> {0, 1, 2}
   \<and> (length argv < 2 \<longrightarrow> fst (main_01 argv env fs openai) = 1)
   \<and> (fst (resolve_api_key env fs io0) = None \<longrightarrow> fst (main_01 argv env fs openai) = 1)
   \<and> (2 \<le> length argv \<and> fst (resolve_api_key env fs io0) = Some k \<longrightarrow>
        (openai k 0 (request_01 env (argv ! 1)) = Inl e \<longrightarrow>
           fst (main_01 argv env fs openai) = 2
         \<and> stdout_of (snd (main_01 argv env fs openai)) = []
         \<and> stderr_of (snd (main_01 argv env fs openai)) = [''API error: '' @ e @ ''\<newline>''])
      \<and> (openai k 0 (request_01 env (argv ! 1)) = Inr r \<and>
         (choices r = None \<or> choices r = Some [] \<or>
          (\<exists>c cs. choices r = Some (c # cs) \<and> choice_text c = None)) \<longrightarrow>
           fst (main_01 argv env fs openai) = 2
         \<and> stdout_of (snd (main_01 argv env fs openai)) = []
         \<and> stderr_of (snd (main_01 argv env fs openai)) = [''Unexpected response format.\<newline>''])
      \<and> (openai k 0 (request_01 env (argv ! 1)) = Inr r \<and>
         choices r = Some (Choice (Some t) # cs) \<longrightarrow>
           fst (main_01 argv env fs openai) = 0
         \<and> stdout_of (snd (main_01 argv env fs openai)) = [strip t @ ''\<newline>'']
         \<and> stderr_of (snd (main_01 argv env fs openai)) = []))"
proof -
  let ?m = "main_01 argv env fs openai"
  let ?rq = "request_01 env (argv ! 1)"
  have o: "out (snd (resolve_api_key env fs io0)) = []"
    by (simp add: out_resolve io0_def)
  have range: "fst ?m \<in> {0, 1, 2}"
  proof (cases "length argv < 2")
    case True
    then show ?thesis by (simp add: main_01_no_arg)
  next
    case False
    show ?thesis
    proof (cases "fst (resolve_api_key env fs io0)")
      case None
      then show ?thesis by (simp add: main_01_no_key)
    next
      case (Some k')
      with False show ?thesis
        by (simp add: main_01_call Let_def split: sum.splits)
    qed
  qed
  have a: "length argv < 2 \<longrightarrow> fst ?m = 1" by (simp add: main_01_no_arg)
  have b: "fst (resolve_api_key env fs io0) = None \<longrightarrow> fst ?m = 1"
    by (simp add: main_01_no_key)
  have c: "fst ?m = 2 \<and> stdout_of (snd ?m) = [] \<and>
           stderr_of (snd ?m) = [''API error: '' @ e @ ''\<newline>'']"
    if "2 \<le> length argv" "fst (resolve_api_key env fs io0) = Some k" "openai k 0 ?rq = Inl e"
    using that o
    by (simp add: main_01_call Let_def stdout_of_def stderr_of_def write_stderr_def)
  have d: "fst ?m = 2 \<and> stdout_of (snd ?m) = [] \<and>
           stderr_of (snd ?m) = [''Unexpected response format.\<newline>'']"
    if "2 \<le> length argv" "fst (resolve_api_key env fs io0) = Some k" "openai k 0 ?rq = Inr r"
      "choices r = None \<or> choices r = Some [] \<or>
          (\<exists>c cs. choices r = Some (c # cs) \<and> choice_text c = None)"
  proof -
    from that(4) obtain x where "extract_text r = Inl x" using extract_text_fail by blast
    with that(1-3) o show ?thesis
      by (simp add: main_01_call Let_def stdout_of_def stderr_of_def write_stderr_def)
  qed
  have f: "fst ?m = 0 \<and> stdout_of (snd ?m) = [strip t @ ''\<newline>''] \<and> stderr_of (snd ?m) = []"
    if "2 \<le> length argv" "fst (resolve_api_key env fs io0) = Some k" "openai k 0 ?rq = Inr r"
      "choices r = Some (Choice (Some t) # cs)"
  proof -
    from that(4) have "extract_text r = Inr (strip t)" by (rule extract_text_ok)
    with that(1-3) o show ?thesis
      by (simp add: main_01_call Let_def stdout_of_def stderr_of_def write_stdout_def)
  qed
  from range a b c d f show ?thesis by blast
qed

theorem main_01_exit_code_witness:
  "fst (main_01 [''completions_01.py''] [(''OPENAI_API_KEY'', ''sk'')] [] (scripted [])) = 1
   \<and> fst (main_01 [''completions_01.py'', ''Hi''] [] [] (scripted [])) = 1
   \<and> fst (main_01 [''completions_01.py'', ''Hi''] [(''OPENAI_API_KEY'', ''sk'')] []
          (scripted [Inl ''timeout''])) = 2
   \<and> stderr_of (snd (main_01 [''completions_01.py'', ''Hi''] [(''OPENAI_API_KEY'', ''sk'')] []
          (scripted [Inl ''timeout'']))) = [''API error: timeout\<newline>'']
   \<and> fst (main_01 [''completions_01.py'', ''Hi''] [(''OPENAI_API_KEY'', ''sk'')] []
          (scripted [Inr (Response (Some []))])) = 2
   \<and> fst (main_01 [''completions_01.py'', ''Hi''] [(''OPENAI_API_KEY'', ''sk'')] []
          (scripted [Inr (Response (Some [Choice (Some '' Hello\<newline>'')]))])) = 0
   \<and> stdout_of (snd (main_01 [''completions_01.py'', ''Hi''] [(''OPENAI_API_KEY'', ''sk'')] []
          (scripted [Inr (Response (Some [Choice (Some '' Hello\<newline>'')]))]))) = [''Hello\<newline>'']"
proof -
  let ?argv = "[''completions_01.py'', ''Hi'']"
  let ?env = "[(''OPENAI_API_KEY'', ''sk'')]"
  have l1: "length [''completions_01.py''] < 2" by simp
  have n: "fst (resolve_api_key [] [] io0) = None" by code_simp
  have k: "2 \<le> length ?argv \<and> fst (resolve_api_key ?env [] io0) = Some ''sk''" by code_simp
  have e: "scripted [Inl ''timeout''] ''sk'' 0 (request_01 ?env (?argv ! 1)) = Inl ''timeout''"
    by (simp add: scripted_def)
  have r: "scripted [Inr (Response (Some []))] ''sk'' 0 (request_01 ?env (?argv ! 1)) =
             Inr (Response (Some [])) \<and> choices (Response (Some [])) = Some []"
    by (simp add: scripted_def)
  have g: "scripted [Inr (Response (Some [Choice (Some '' Hello\<newline>'')]))] ''sk'' 0
             (request_01 ?env (?argv ! 1)) = Inr (Response (Some [Choice (Some '' Hello\<newline>'')]))
           \<and> choices (Response (Some [Choice (Some '' Hello\<newline>'')])) =
             Some (Choice (Some '' Hello\<newline>'') # [])"
    by (simp add: scripted_def)
  have s: "strip '' Hello\<newline>'' = ''Hello''" by code_simp
  from l1 main_01_exit_code [of "[''completions_01.py'']" ?env "[]" "scripted []"]
  have c1: "fst (main_01 [''completions_01.py''] ?env [] (scripted [])) = 1" by blast
  from n main_01_exit_code [of ?argv "[]" "[]" "scripted []"]
  have c2: "fst (main_01 ?argv [] [] (scripted [])) = 1" by blast
  from k e main_01_exit_code [of ?argv ?env "[]" "scripted [Inl ''timeout'']" "''sk''" "''timeout''"]
  have c3: "fst (main_01 ?argv ?env [] (scripted [Inl ''timeout''])) = 2 \<and>
            stderr_of (snd (main_01 ?argv ?env [] (scripted [Inl ''timeout'']))) =
              [''API error: '' @ ''timeout'' @ ''\<newline>'']" by blast
  from k r main_01_exit_code [of ?argv ?env "[]" "scripted [Inr (Response (Some []))]" "''sk''" _
      "Response (Some [])"]
  have c4: "fst (main_01 ?argv ?env [] (scripted [Inr (Response (Some []))])) = 2" by blast
  from k g main_01_exit_code [of ?argv ?env "[]" "scripted [Inr (Response (Some [Choice (Some '' Hello\<newline>'')]))]"
      "''sk''" _ "Response (Some [Choice (Some '' Hello\<newline>'')])" "'' Hello\<newline>''" "[]"]
  have c5: "fst (main_01 ?argv ?env []
              (scripted [Inr (Response (Some [Choice (Some '' Hello\<newline>'')]))])) = 0 \<and>
            stdout_of (snd (main_01 ?argv ?env []
              (scripted [Inr (Response (Some [Choice (Some '' Hello\<newline>'')]))]))) =
              [strip '' Hello\<newline>'' @ ''\<newline>'']" by blast
  from c1 c2 c3 c4 c5 s show ?thesis by simp
qed

section \<open>The interactive loop\<close>

lemma loop_body_empty: "strip raw = [] \<Longrightarrow> loop_body a cl raw st = Continue st"
  by (simp add: loop_body_def)

lemma loop_body_exit:
  "lower (strip raw) \<in> {''exit'', ''quit''} \<Longrightarrow> loop_body a cl raw st = Break st"
  by (auto simp: loop_body_def Let_def lower_def)

lemma loop_body_api_error:
  assumes "strip raw \<noteq> []" "lower (strip raw) \<notin> {''exit'', ''quit''}"
    and "cl (length (calls st)) (request_02 a (transcript st) (strip raw)) = Inl e"
  shows "loop_body a cl raw st =
     Continue (st\<lparr>out := out st @ request_log a (request_02 a (transcript st) (strip raw)) @
                        [Stderr (''API error: '' @ e @ ''\<newline>'')],
                 calls := calls st @ [request_02 a (transcript st) (strip raw)]\<rparr>)"
  using assms
  by (simp add: loop_body_def Let_def create_def print_gray_json_def write_stderr_def
      request_log_def)

lemma loop_body_bad_shape:
  assumes "strip raw \<noteq> []" "lower (strip raw) \<notin> {''exit'', ''quit''}"
    and "cl (length (calls st)) (request_02 a (transcript st) (strip raw)) = Inr r"
    and "extract_text r = Inl x"
  shows "loop_body a cl raw st =
     Continue (st\<lparr>out := out st @ request_log a (request_02 a (transcript st) (strip raw)) @
                        response_log a r @ [Stderr ''Unexpected response format.\<newline>''],
                 calls := calls st @ [request_02 a (transcript st) (strip raw)]\<rparr>)"
  using assms
  by (simp add: loop_body_def Let_def create_def print_gray_json_def write_stderr_def
      request_log_def response_log_def)

lemma loop_body_success:
  assumes "strip raw \<noteq> []" "lower (strip raw) \<notin> {''exit'', ''quit''}"
    and "cl (length (calls st)) (request_02 a (transcript st) (strip raw)) = Inr r"
    and "extract_text r = Inr t"
  shows "loop_body a cl raw st =
     Continue (st\<lparr>out := out st @ request_log a (request_02 a (transcript st) (strip raw)) @
                        response_log a r @ [Stdout (''Assistant: '' @ t @ ''\<newline>'')],
                 calls := calls st @ [request_02 a (transcript st) (strip raw)],
                 transcript := transcript st @ ''User: '' @ strip raw @
                     ''\<newline>Assistant: '' @ t @ ''\<newline>''\<rparr>)"
  using assms
  by (simp add: loop_body_def Let_def create_def print_gray_json_def write_stdout_def
      request_log_def response_log_def)



lemma show_prompt_fields [simp]:
  "calls (show_prompt p st) = calls st"
  "transcript (show_prompt p st) = transcript st"
  "out (show_prompt p st) = out st @ [Prompt p]"
  by (simp_all add: show_prompt_def)

lemma stderr_request_log [simp]:
  "concat (map (\<lambda>e. case e of Stderr s \<Rightarrow> [s] | _ \<Rightarrow> []) (request_log a rq)) = []"
  by (simp add: request_log_def)

lemma stderr_response_log [simp]:
  "concat (map (\<lambda>e. case e of Stderr s \<Rightarrow> [s] | _ \<Rightarrow> []) (response_log a r)) = []"
  by (simp add: response_log_def)


lemma main_02_exit0:
  "fst (resolve_api_key env fs chat0) = Some k \<Longrightarrow>
   main_02 a env fs openai stdin =
     (0, chat_loop a (openai k) stdin (write_stdout banner_02 (snd (resolve_api_key env fs chat0))))"
proof -
  assume k: "fst (resolve_api_key env fs chat0) = Some k"
  then have "k \<noteq> []" by (rule resolve_nonempty)
  with k show ?thesis
    by (cases "resolve_api_key env fs chat0") (simp add: main_02_def)
qed

lemma write_stdout_fields [simp]:
  "calls (write_stdout s st) = calls st"
  "transcript (write_stdout s st) = transcript st"
  "out (write_stdout s st) = out st @ [Stdout s]"
  by (simp_all add: write_stdout_def)

lemma loop_body_calls:
  assumes "strip raw \<noteq> []" "lower (strip raw) \<notin> {''exit'', ''quit''}"
  shows "calls (the_state (loop_body a cl raw st)) =
           calls st @ [request_02 a (transcript st) (strip raw)]"
proof (cases "cl (length (calls st)) (request_02 a (transcript st) (strip raw))")
  case (Inl e)
  with assms show ?thesis by (simp add: loop_body_api_error)
next
  case (Inr r)
  with assms show ?thesis
    by (cases "extract_text r") (simp_all add: loop_body_bad_shape loop_body_success)
qed

lemma loop_body_out:
  assumes "strip raw \<noteq> []" "lower (strip raw) \<notin> {''exit'', ''quit''}"
  shows "\<exists>more. out (the_state (loop_body a cl raw st)) =
           out st @ request_log a (request_02 a (transcript st) (strip raw)) @ more"
proof (cases "cl (length (calls st)) (request_02 a (transcript st) (strip raw))")
  case (Inl e)
  with assms show ?thesis by (simp add: loop_body_api_error)
next
  case (Inr r)
  with assms show ?thesis
    by (cases "extract_text r") (simp_all add: loop_body_bad_shape loop_body_success)
qed



text \<open>
  C5. For a line that is a message, the request sent to the client carries the whole
  built prompt, verbose or not. In verbose mode the first thing the iteration writes
  is the logged request: when the prompt has more than 1000 characters its prompt item
  is the first 1000 characters followed by \<open>... [truncated]\<close>; when it has at most 1000
  the request is logged as it is.
\<close>

theorem verbose_log_truncates_prompt:
  fixes a :: args and st :: chat and raw :: string and cl :: client
  defines "rq \<equiv> request_02 a (transcript st) (strip raw)"
  defines "p \<equiv> build_prompt (args_system a) (transcript st) (strip raw)"
  shows "strip raw \<noteq> [] \<and> lower (strip raw) \<notin> {''exit'', ''quit''} \<longrightarrow>
     prompt rq = p
   \<and> calls (the_state (loop_body a cl raw st)) = calls st @ [rq]
   \<and> (args_verbose a \<and> 1000 < length p \<longrightarrow>
        take (Suc (length (out st))) (out (the_state (loop_body a cl raw st))) =
          out st @ [GrayJson ''>> Request:''
            (LogRequest ''completions.create''
               (rq\<lparr>prompt := take 1000 p @ ''... [truncated]''\<rparr>))]
      \<and> length (take 1000 p) = 1000)
   \<and> (args_verbose a \<and> length p \<le> 1000 \<longrightarrow>
        take (Suc (length (out st))) (out (the_state (loop_body a cl raw st))) =
          out st @ [GrayJson ''>> Request:'' (LogRequest ''completions.create'' rq)])"
proof (intro impI)
  assume h: "strip raw \<noteq> [] \<and> lower (strip raw) \<notin> {''exit'', ''quit''}"
  have pr: "prompt rq = p" by (simp add: rq_def p_def request_02_def)
  from h have c: "calls (the_state (loop_body a cl raw st)) = calls st @ [rq]"
    unfolding rq_def by (simp add: loop_body_calls)
  from h obtain more where
    o: "out (the_state (loop_body a cl raw st)) = out st @ request_log a rq @ more"
    unfolding rq_def using loop_body_out by blast
  have long: "take (Suc (length (out st))) (out (the_state (loop_body a cl raw st))) =
          out st @ [GrayJson ''>> Request:''
            (LogRequest ''completions.create''
               (rq\<lparr>prompt := take 1000 p @ ''... [truncated]''\<rparr>))]
      \<and> length (take 1000 p) = 1000"
    if "args_verbose a \<and> 1000 < length p"
    using that o pr by (simp add: request_log_def logged_request_def)
  have short: "take (Suc (length (out st))) (out (the_state (loop_body a cl raw st))) =
          out st @ [GrayJson ''>> Request:'' (LogRequest ''completions.create'' rq)]"
    if "args_verbose a \<and> length p \<le> 1000"
    using that o pr by (simp add: request_log_def logged_request_def)
  from pr c long short show "prompt rq = p
   \<and> calls (the_state (loop_body a cl raw st)) = calls st @ [rq]
   \<and> (args_verbose a \<and> 1000 < length p \<longrightarrow>
        take (Suc (length (out st))) (out (the_state (loop_body a cl raw st))) =
          out st @ [GrayJson ''>> Request:''
            (LogRequest ''completions.create''
               (rq\<lparr>prompt := take 1000 p @ ''... [truncated]''\<rparr>))]
      \<and> length (take 1000 p) = 1000)
   \<and> (args_verbose a \<and> length p \<le> 1000 \<longrightarrow>
        take (Suc (length (out st))) (out (the_state (loop_body a cl raw st))) =
          out st @ [GrayJson ''>> Request:'' (LogRequest ''completions.create'' rq)])"
    by blast
qed

theorem verbose_log_truncates_prompt_witness:
  "calls (the_state (loop_body verbose_args (scripted [] ''sk'') (replicate 1001 (CHR ''a'')) chat0)) =
     [request_02 verbose_args [] (replicate 1001 (CHR ''a''))]
   \<and> prompt (request_02 verbose_args [] (replicate 1001 (CHR ''a''))) =
       ''User: '' @ replicate 1001 (CHR ''a'') @ ''\<newline>Assistant:''
   \<and> take 1 (out (the_state (loop_body verbose_args (scripted [] ''sk'')
        (replicate 1001 (CHR ''a'')) chat0))) =
       [GrayJson ''>> Request:''
          (LogRequest ''completions.create''
             ((request_02 verbose_args [] (replicate 1001 (CHR ''a'')))
                \<lparr>prompt := ''User: '' @ replicate 994 (CHR ''a'') @ ''... [truncated]''\<rparr>))]
   \<and> take 1 (out (the_state (loop_body verbose_args (scripted [] ''sk'') ''Hi'' chat0))) =
       [GrayJson ''>> Request:''
          (LogRequest ''completions.create'' (request_02 verbose_args [] ''Hi''))]"
proof -
  let ?raw = "replicate 1001 (CHR ''a'')"
  have sp: "\<not> isspace (CHR ''a'')" by code_simp
  then have s: "strip ?raw = ?raw" by (intro strip_no_space) simp
  have "length (lower ?raw) = 1001" by (simp add: lower_def)
  then have l: "lower ?raw \<notin> {''exit'', ''quit''}" by auto
  have s2: "strip ''Hi'' = ''Hi''" by code_simp
  have l2: "lower ''Hi'' \<notin> {''exit'', ''quit''}" by code_simp
  have v: "args_verbose verbose_args" "args_system verbose_args = []"
    by (simp_all add: verbose_args_def)
  have t0: "transcript chat0 = []" "calls chat0 = []" "out chat0 = []"
    by (simp_all add: chat0_def)
  have p: "build_prompt [] [] ?raw = ''User: '' @ ?raw @ ''\<newline>Assistant:''"
    by (simp add: build_prompt_def)
  have len: "1000 < length (build_prompt [] [] ?raw)" by (simp add: p)
  have tk: "take 1000 (build_prompt [] [] ?raw) = ''User: '' @ replicate 994 (CHR ''a'')"
    by (simp add: p)
  have p2: "length (build_prompt [] [] ''Hi'') \<le> 1000" by (simp add: build_prompt_def)
  note big = verbose_log_truncates_prompt [where raw = ?raw and a = verbose_args and st = chat0
      and cl = "scripted [] ''sk''"]
  note small = verbose_log_truncates_prompt [where raw = "''Hi''" and a = verbose_args and st = chat0
      and cl = "scripted [] ''sk''"]
  from big s l v t0 len tk
  have a: "calls (the_state (loop_body verbose_args (scripted [] ''sk'') ?raw chat0)) =
       [request_02 verbose_args [] ?raw]
     \<and> prompt (request_02 verbose_args [] ?raw) = build_prompt [] [] ?raw
     \<and> take 1 (out (the_state (loop_body verbose_args (scripted [] ''sk'') ?raw chat0))) =
       [GrayJson ''>> Request:''
          (LogRequest ''completions.create''
             ((request_02 verbose_args [] ?raw)
                \<lparr>prompt := (''User: '' @ replicate 994 (CHR ''a'')) @ ''... [truncated]''\<rparr>))]"
    by simp
  from small s2 l2 v t0 p2
  have b: "take 1 (out (the_state (loop_body verbose_args (scripted [] ''sk'') ''Hi'' chat0))) =
       [GrayJson ''>> Request:''
          (LogRequest ''completions.create'' (request_02 verbose_args [] ''Hi''))]"
    by simp
  from a b p show ?thesis by simp
qed

text \<open>
  C6. A line whose lower-cased form is \<open>exit\<close> or \<open>quit\<close> breaks the loop with the
  state as it is: no request is sent. So do the end of input and an interrupt during
  the read, after a newline on standard output. Once a credential is found the
  interactive program returns 0; when the first event is one of these, it has sent no
  request. \<open>exit\<close>, \<open>EXIT\<close> and \<open>quit\<close> are such lines.
\<close>

theorem exit_words_end_loop:
  "(lower l \<in> {''exit'', ''quit''} \<longrightarrow>
      loop_body a cl l st = Break st
    \<and> chat_loop a cl (Line l # rest) st = show_prompt ''You: '' st
    \<and> calls (chat_loop a cl (Line l # rest) st) = calls st)
   \<and> chat_loop a cl [] st = write_stdout ''\<newline>'' (show_prompt ''You: '' st)
   \<and> calls (chat_loop a cl [] st) = calls st
   \<and> chat_loop a cl (Interrupt # rest) st = write_stdout ''\<newline>'' (show_prompt ''You: '' st)
   \<and> calls (chat_loop a cl (Interrupt # rest) st) = calls st
   \<and> (fst (resolve_api_key env fs chat0) = Some k \<longrightarrow>
        fst (main_02 a env fs openai stdin) = 0
      \<and> (stdin = [] \<or> stdin = Interrupt # rest \<or>
         (stdin = Line l # rest \<and> lower l \<in> {''exit'', ''quit''}) \<longrightarrow>
           calls (snd (main_02 a env fs openai stdin)) = []))
   \<and> lower ''exit'' = ''exit'' \<and> lower ''EXIT'' = ''exit'' \<and> lower ''quit'' = ''quit''"
proof -
  have x: "loop_body a cl' l st' = Break st'" if "lower l \<in> {''exit'', ''quit''}" for cl' st'
    using that loop_body_exit [of l a cl' st'] strip_lower_exit [of l] by simp
  have c0: "calls (snd (resolve_api_key env fs chat0)) = []"
    by (simp add: calls_resolve chat0_def)
  have m: "calls (snd (main_02 a env fs openai stdin)) = []"
    if k: "fst (resolve_api_key env fs chat0) = Some k"
      and s: "stdin = [] \<or> stdin = Interrupt # rest \<or>
         (stdin = Line l # rest \<and> lower l \<in> {''exit'', ''quit''})"
  proof -
    let ?st = "write_stdout banner_02 (snd (resolve_api_key env fs chat0))"
    have "calls (chat_loop a (openai k) stdin ?st) = []"
      using s
    proof (elim disjE conjE)
      assume "stdin = Line l # rest" "lower l \<in> {''exit'', ''quit''}"
      then show ?thesis using x [of "openai k" "show_prompt ''You: '' ?st"] c0 by simp
    qed (simp_all add: c0)
    then show ?thesis by (simp add: main_02_exit0 [OF k])
  qed
  have lw: "lower ''exit'' = ''exit'' \<and> lower ''EXIT'' = ''exit'' \<and> lower ''quit'' = ''quit''"
    by code_simp
  from x m lw show ?thesis by (auto simp: main_02_exit0)
qed

theorem exit_words_end_loop_witness:
  "loop_body (default_args []) (scripted [] ''sk'') ''quit'' chat0 = Break chat0
   \<and> fst (main_02 (default_args []) [(''OPENAI_API_KEY'', ''sk'')] [] (scripted [])
          [Line ''EXIT'', Line ''Hi'']) = 0
   \<and> calls (snd (main_02 (default_args []) [(''OPENAI_API_KEY'', ''sk'')] [] (scripted [])
          [Line ''EXIT'', Line ''Hi''])) = []"
proof -
  have q: "lower ''quit'' \<in> {''exit'', ''quit''}" by code_simp
  have e: "lower ''EXIT'' \<in> {''exit'', ''quit''}" by code_simp
  have k: "fst (resolve_api_key [(''OPENAI_API_KEY'', ''sk'')] [] chat0) = Some ''sk''"
    by code_simp
  from q exit_words_end_loop [where l = "''quit''" and a = "default_args []" and cl = "scripted [] ''sk''"
      and st = chat0]
  have a: "loop_body (default_args []) (scripted [] ''sk'') ''quit'' chat0 = Break chat0"
    by blast
  from e k exit_words_end_loop [where l = "''EXIT''" and rest = "[Line ''Hi'']" and a = "default_args []"
      and env = "[(''OPENAI_API_KEY'', ''sk'')]" and fs = "[]" and k = "''sk''"
      and openai = "scripted []" and stdin = "[Line ''EXIT'', Line ''Hi'']"]
  have b: "fst (main_02 (default_args []) [(''OPENAI_API_KEY'', ''sk'')] [] (scripted [])
          [Line ''EXIT'', Line ''Hi'']) = 0
   \<and> calls (snd (main_02 (default_args []) [(''OPENAI_API_KEY'', ''sk'')] [] (scripted [])
          [Line ''EXIT'', Line ''Hi''])) = []"
    by blast
  from a b show ?thesis by blast
qed

text \<open>
  C7. On an empty line the iteration does nothing: it ends with \<open>continue\<close> and the
  state (requests sent, output, transcript) is unchanged; the loop goes on with the
  rest of the input, having shown only the prompt of the read.
\<close>

theorem empty_line_is_noop:
  "loop_body a cl [] st = Continue st
   \<and> calls (the_state (loop_body a cl [] st)) = calls st
   \<and> out (the_state (loop_body a cl [] st)) = out st
   \<and> transcript (the_state (loop_body a cl [] st)) = transcript st
   \<and> chat_loop a cl (Line [] # rest) st = chat_loop a cl rest (show_prompt ''You: '' st)"
  by (simp add: loop_body_def strip_def)

theorem empty_line_is_noop_witness:
  "loop_body (default_args []) (scripted [] ''sk'') [] chat0 = Continue chat0
   \<and> chat_loop (default_args []) (scripted [] ''sk'') [Line [], Line ''exit''] chat0 =
       chat0\<lparr>out := [Prompt ''You: '', Prompt ''You: '']\<rparr>"
proof -
  have e: "chat_loop (default_args []) (scripted [] ''sk'') [Line ''exit'']
             (show_prompt ''You: '' chat0) = chat0\<lparr>out := [Prompt ''You: '', Prompt ''You: '']\<rparr>"
    by code_simp
  from empty_line_is_noop [of "default_args []" "scripted [] ''sk''" chat0 "[Line ''exit'']"] e
  show ?thesis by simp
qed

text \<open>
  C9. Building the prompt commutes with the growth of the transcript. For every system
  instruction, transcript, exchange and next message, the prompt built from the
  transcript with the exchange appended is the prompt of the exchange's own turn,
  followed by the reply and the marker of the next message. In the loop: after an
  iteration that succeeds, the transcript is the old one with the exchange appended,
  and the prompt of the next request is built from it.
\<close>

theorem build_prompt_transcript_growth:
  "build_prompt s (t @ ''User: '' @ u @ ''\<newline>Assistant: '' @ r @ ''\<newline>'') m =
     build_prompt s t u @ '' '' @ r @ ''\<newline>'' @ ''User: '' @ m @ ''\<newline>Assistant:''
   \<and> (strip raw \<noteq> [] \<and> lower (strip raw) \<notin> {''exit'', ''quit''} \<and>
      cl (length (calls st)) (request_02 a (transcript st) (strip raw)) = Inr resp \<and>
      extract_text resp = Inr r \<longrightarrow>
        transcript (the_state (loop_body a cl raw st)) =
          transcript st @ ''User: '' @ strip raw @ ''\<newline>Assistant: '' @ r @ ''\<newline>''
      \<and> prompt (request_02 a (transcript (the_state (loop_body a cl raw st))) m) =
          build_prompt (args_system a)
            (transcript st @ ''User: '' @ strip raw @ ''\<newline>Assistant: '' @ r @ ''\<newline>'') m
      \<and> prompt (request_02 a (transcript (the_state (loop_body a cl raw st))) m) =
          prompt (request_02 a (transcript st) (strip raw)) @
            '' '' @ r @ ''\<newline>'' @ ''User: '' @ m @ ''\<newline>Assistant:'')"
proof -
  have g: "build_prompt s' (t' @ ''User: '' @ u' @ ''\<newline>Assistant: '' @ r @ ''\<newline>'') m =
     build_prompt s' t' u' @ '' '' @ r @ ''\<newline>'' @ ''User: '' @ m @ ''\<newline>Assistant:''"
    for s' t' u'
    by (simp add: build_prompt_def)
  have "transcript (the_state (loop_body a cl raw st)) =
          transcript st @ ''User: '' @ strip raw @ ''\<newline>Assistant: '' @ r @ ''\<newline>''"
    if "strip raw \<noteq> [] \<and> lower (strip raw) \<notin> {''exit'', ''quit''} \<and>
      cl (length (calls st)) (request_02 a (transcript st) (strip raw)) = Inr resp \<and>
      extract_text resp = Inr r"
    using that by (simp add: loop_body_success)
  with g show ?thesis by (simp add: request_02_def)
qed

theorem build_prompt_transcript_growth_witness:
  "transcript (the_state (loop_body (default_args [])
       (scripted [Inr (Response (Some [Choice (Some '' Hello. '')]))] ''sk'') ''Hi'' chat0)) =
     ''User: Hi\<newline>Assistant: Hello.\<newline>''
   \<and> prompt (request_02 (default_args []) ''User: Hi\<newline>Assistant: Hello.\<newline>'' ''Bye'') =
     prompt (request_02 (default_args []) [] ''Hi'') @ '' Hello.\<newline>User: Bye\<newline>Assistant:''"
proof -
  let ?cl = "scripted [Inr (Response (Some [Choice (Some '' Hello. '')]))] ''sk''"
  let ?st = "the_state (loop_body (default_args []) ?cl ''Hi'' chat0)"
  have s: "strip ''Hi'' = ''Hi''" by code_simp
  have l: "lower ''Hi'' \<notin> {''exit'', ''quit''}" by code_simp
  have t0: "transcript chat0 = []" "calls chat0 = []" by (simp_all add: chat0_def)
  have x: "extract_text (Response (Some [Choice (Some '' Hello. '')])) = Inr ''Hello.''"
    by code_simp
  have h: "strip ''Hi'' \<noteq> [] \<and> lower (strip ''Hi'') \<notin> {''exit'', ''quit''} \<and>
      ?cl (length (calls chat0)) (request_02 (default_args []) (transcript chat0) (strip ''Hi'')) =
        Inr (Response (Some [Choice (Some '' Hello. '')])) \<and>
      extract_text (Response (Some [Choice (Some '' Hello. '')])) = Inr ''Hello.''"
    using l x by (simp add: s t0 scripted_def)
  from h build_prompt_transcript_growth [where raw = "''Hi''" and a = "default_args []" and st = chat0 and cl = ?cl
      and resp = "Response (Some [Choice (Some '' Hello. '')])" and r = "''Hello.''"
      and m = "''Bye''" and s = "[]" and t = "[]" and u = "[]"]
  have tr: "transcript ?st =
          transcript chat0 @ ''User: '' @ strip ''Hi'' @ ''\<newline>Assistant: '' @ ''Hello.'' @ ''\<newline>''"
    and pr: "prompt (request_02 (default_args []) (transcript ?st) ''Bye'') =
          prompt (request_02 (default_args []) (transcript chat0) (strip ''Hi'')) @
            '' '' @ ''Hello.'' @ ''\<newline>'' @ ''User: '' @ ''Bye'' @ ''\<newline>Assistant:''"
    by blast+
  from tr have tr': "transcript ?st = ''User: Hi\<newline>Assistant: Hello.\<newline>''"
    by (simp add: s t0)
  from pr have "prompt (request_02 (default_args []) ''User: Hi\<newline>Assistant: Hello.\<newline>'' ''Bye'') =
     prompt (request_02 (default_args []) [] ''Hi'') @ '' Hello.\<newline>User: Bye\<newline>Assistant:''"
    unfolding tr' by (simp add: s t0)
  with tr' show ?thesis by blast
qed

text \<open>
  C10. The loop strips every input line first: an iteration on a line is the iteration
  on the stripped line. A line of white space only does what the empty line does
  (\<open>continue\<close>, state unchanged); a line whose stripped, lower-cased form is \<open>exit\<close>
  or \<open>quit\<close> breaks the loop, as \<open>Exit\<close> between blanks does. When the exchange
  succeeds, the prompt and the transcript hold the stripped user message, and the
  reply is stripped before it is printed and appended to the transcript.
\<close>

theorem loop_strips_input:
  "loop_body a cl raw st = loop_body a cl (strip raw) st
   \<and> ((\<forall>c\<in>set raw. isspace c) \<longrightarrow>
        loop_body a cl raw st = Continue st \<and> loop_body a cl raw st = loop_body a cl [] st)
   \<and> (lower (strip raw) \<in> {''exit'', ''quit''} \<longrightarrow> loop_body a cl raw st = Break st)
   \<and> loop_body a cl ''  Exit  '' st = Break st
   \<and> (strip raw \<noteq> [] \<and> lower (strip raw) \<notin> {''exit'', ''quit''} \<and>
      cl (length (calls st)) (request_02 a (transcript st) (strip raw)) = Inr r \<and>
      choices r = Some (Choice (Some t) # cs) \<longrightarrow>
        prompt (request_02 a (transcript st) (strip raw)) =
          build_prompt (args_system a) (transcript st) (strip raw)
      \<and> loop_body a cl raw st =
          Continue (st\<lparr>out := out st @ request_log a (request_02 a (transcript st) (strip raw)) @
                             response_log a r @
                             [Stdout (''Assistant: '' @ strip t @ ''\<newline>'')],
                      calls := calls st @ [request_02 a (transcript st) (strip raw)],
                      transcript := transcript st @ ''User: '' @ strip raw @
                          ''\<newline>Assistant: '' @ strip t @ ''\<newline>''\<rparr>))"
proof -
  have a: "loop_body a cl raw st = loop_body a cl (strip raw) st"
    by (simp add: loop_body_def strip_idem)
  have b: "loop_body a cl raw st = Continue st \<and> loop_body a cl raw st = loop_body a cl [] st"
    if "\<forall>c\<in>set raw. isspace c"
  proof -
    from that have "strip raw = []" by (rule strip_all_space)
    then show ?thesis by (simp add: loop_body_empty strip_def)
  qed
  have c: "loop_body a cl raw st = Break st" if "lower (strip raw) \<in> {''exit'', ''quit''}"
    using that by (rule loop_body_exit)
  have "lower (strip ''  Exit  '') \<in> {''exit'', ''quit''}" by code_simp
  then have d: "loop_body a cl ''  Exit  '' st = Break st" by (rule loop_body_exit)
  have e: "prompt (request_02 a (transcript st) (strip raw)) =
          build_prompt (args_system a) (transcript st) (strip raw)"
    by (simp add: request_02_def)
  have f: "loop_body a cl raw st =
          Continue (st\<lparr>out := out st @ request_log a (request_02 a (transcript st) (strip raw)) @
                             response_log a r @
                             [Stdout (''Assistant: '' @ strip t @ ''\<newline>'')],
                      calls := calls st @ [request_02 a (transcript st) (strip raw)],
                      transcript := transcript st @ ''User: '' @ strip raw @
                          ''\<newline>Assistant: '' @ strip t @ ''\<newline>''\<rparr>)"
    if "strip raw \<noteq> [] \<and> lower (strip raw) \<notin> {''exit'', ''quit''} \<and>
      cl (length (calls st)) (request_02 a (transcript st) (strip raw)) = Inr r \<and>
      choices r = Some (Choice (Some t) # cs)"
  proof -
    from that have "extract_text r = Inr (strip t)" by (simp add: extract_text_ok)
    with that show ?thesis by (simp add: loop_body_success)
  qed
  from a b c d e f show ?thesis by blast
qed

theorem loop_strips_input_witness:
  "loop_body (default_args []) (scripted [] ''sk'') '' \<newline> '' chat0 = Continue chat0
   \<and> loop_body (default_args []) (scripted [] ''sk'') '' QUIT '' chat0 = Break chat0
   \<and> loop_body (default_args [])
       (scripted [Inr (Response (Some [Choice (Some '' Hello. '')]))] ''sk'') '' Hi '' chat0 =
     Continue (chat0\<lparr>out := [Stdout ''Assistant: Hello.\<newline>''],
                 calls := [request_02 (default_args []) [] ''Hi''],
                 transcript := ''User: Hi\<newline>Assistant: Hello.\<newline>''\<rparr>)"
proof -
  let ?cl = "scripted [Inr (Response (Some [Choice (Some '' Hello. '')]))] ''sk''"
  have w: "\<forall>c\<in>set '' \<newline> ''. isspace c" by code_simp
  have q: "lower (strip '' QUIT '') \<in> {''exit'', ''quit''}" by code_simp
  have s: "strip '' Hi '' = ''Hi''" by code_simp
  have l: "lower ''Hi'' \<notin> {''exit'', ''quit''}" by code_simp
  have t0: "transcript chat0 = []" "calls chat0 = []" "out chat0 = []"
    by (simp_all add: chat0_def)
  have c: "?cl 0 (request_02 (default_args []) [] ''Hi'') =
             Inr (Response (Some [Choice (Some '' Hello. '')]))"
    by (simp add: scripted_def)
  have ch: "choices (Response (Some [Choice (Some '' Hello. '')])) =
              Some (Choice (Some '' Hello. '') # [])"
    by simp
  have x: "strip '' Hello. '' = ''Hello.''" by code_simp
  have nv: "request_log (default_args []) rq = []" "response_log (default_args []) r = []" for rq r
    by (simp_all add: request_log_def response_log_def default_args_def)
  from w loop_strips_input [where raw = "'' \<newline> ''" and a = "default_args []" and cl = "scripted [] ''sk''"
      and st = chat0]
  have r1: "loop_body (default_args []) (scripted [] ''sk'') '' \<newline> '' chat0 = Continue chat0"
    by blast
  from q loop_strips_input [where raw = "'' QUIT ''" and a = "default_args []" and cl = "scripted [] ''sk''"
      and st = chat0]
  have r2: "loop_body (default_args []) (scripted [] ''sk'') '' QUIT '' chat0 = Break chat0"
    by blast
  have h: "strip '' Hi '' \<noteq> [] \<and> lower (strip '' Hi '') \<notin> {''exit'', ''quit''} \<and>
      ?cl (length (calls chat0)) (request_02 (default_args []) (transcript chat0) (strip '' Hi '')) =
        Inr (Response (Some [Choice (Some '' Hello. '')])) \<and>
      choices (Response (Some [Choice (Some '' Hello. '')])) =
        Some (Choice (Some '' Hello. '') # [])"
    using l by (simp add: s t0 scripted_def)
  from h loop_strips_input [where raw = "'' Hi ''" and a = "default_args []" and cl = ?cl and st = chat0
      and r = "Response (Some [Choice (Some '' Hello. '')])" and t = "'' Hello. ''" and cs = "[]"]
  have "loop_body (default_args []) ?cl '' Hi '' chat0 =
     Continue (chat0\<lparr>out := out chat0 @
                   request_log (default_args [])
                     (request_02 (default_args []) (transcript chat0) (strip '' Hi '')) @
                   response_log (default_args []) (Response (Some [Choice (Some '' Hello. '')])) @
                   [Stdout (''Assistant: '' @ strip '' Hello. '' @ ''\<newline>'')],
                 calls := calls chat0 @
                   [request_02 (default_args []) (transcript chat0) (strip '' Hi '')],
                 transcript := transcript chat0 @ ''User: '' @ strip '' Hi '' @
                   ''\<newline>Assistant: '' @ strip '' Hello. '' @ ''\<newline>''\<rparr>)"
    by blast
  then have r3: "loop_body (default_args []) ?cl '' Hi '' chat0 =
     Continue (chat0\<lparr>out := [Stdout ''Assistant: Hello.\<newline>''],
                 calls := [request_02 (default_args []) [] ''Hi''],
                 transcript := ''User: Hi\<newline>Assistant: Hello.\<newline>''\<rparr>)"
    by (simp add: s t0 x nv)
  from r1 r2 r3 show ?thesis by blast
qed

end
